theory Spec2Isabelle
  imports Complex_Main "HOL-Library.Sublist" "HOL-Library.AList"
begin

section \<open>Python values used by \<^verbatim>\<open>src/teleop/main.py\<close>\<close>

text \<open>
  A Python \<^verbatim>\<open>str\<close> is a \<open>string\<close>; the characters of the model are the code points
  below 256. A Python \<^verbatim>\<open>float\<close> is idealised as a \<open>real\<close>: rounding, infinities and
  NaN are outside the model, and the two conversions of a float to text that the program
  uses (\<^verbatim>\<open>format(x, '.Nf')\<close> and \<^verbatim>\<open>float.__repr__\<close>) are parameters of the model,
  collected in the record \<open>platform\<close>. A \<^verbatim>\<open>dict\<close> is an association list in insertion
  order, as Python iterates it.
\<close>

datatype exn =
    KeyboardInterrupt
  | ZeroDivisionError
  | ValueError
  | OtherException string

record platform =
  format_f :: "nat \<Rightarrow> real \<Rightarrow> string"
  float_repr :: "real \<Rightarrow> string"

type_synonym action = "(string \<times> real) list"

subsection \<open>\<^verbatim>\<open>str.replace\<close>, \<^verbatim>\<open>str.join\<close>, \<^verbatim>\<open>str.rjust\<close>, \<^verbatim>\<open>str(int)\<close>\<close>

text \<open>
  \<^verbatim>\<open>s.replace(old, new)\<close> scans \<open>s\<close> from the left and replaces every
  non-overlapping occurrence of \<open>old\<close>; with an empty \<open>old\<close> it puts \<open>new\<close> before
  every character and at the end.
\<close>

function py_replace :: "string \<Rightarrow> string \<Rightarrow> string \<Rightarrow> string" where
  "py_replace old new [] = (if old = [] then new else [])"
| "py_replace old new (c # cs) =
     (if old = [] then new @ c # py_replace old new cs
      else if prefix old (c # cs) then new @ py_replace old new (drop (length old) (c # cs))
      else c # py_replace old new cs)"
  by pat_completeness auto
termination
  by (relation "measure (\<lambda>(old, new, s). length s)") (auto simp: Suc_diff_le)

fun py_join :: "string \<Rightarrow> string list \<Rightarrow> string" where
  "py_join sep [] = []"
| "py_join sep [x] = x"
| "py_join sep (x # y # ys) = x @ sep @ py_join sep (y # ys)"

definition rjust :: "nat \<Rightarrow> string \<Rightarrow> string" where
  "rjust w s = replicate (w - length s) CHR '' '' @ s"

definition digit_char :: "nat \<Rightarrow> char" where
  "digit_char d = ''0123456789'' ! d"

fun str_nat :: "nat \<Rightarrow> string" where
  "str_nat n = (if n < 10 then [digit_char n] else str_nat (n div 10) @ [digit_char (n mod 10)])"

definition str_int :: "int \<Rightarrow> string" where
  "str_int i = (if i < 0 then CHR ''-'' # str_nat (nat (- i)) else str_nat (nat i))"

declare str_nat.simps [simp del]

subsection \<open>\<^verbatim>\<open>json.dumps\<close> on the values the program serialises\<close>

text \<open>
  The program serialises a dict whose values are floats or dicts of floats, with the
  default options of \<^verbatim>\<open>json.dumps\<close>: separators \<^verbatim>\<open>", "\<close> and \<^verbatim>\<open>": "\<close>, and
  \<^verbatim>\<open>ensure_ascii\<close>, under which a key is written between double quotes with the quote,
  the backslash and every character outside \<^verbatim>\<open>' '..'~'\<close> escaped.
\<close>

datatype json = JNumber real | JObject "(string \<times> json) list"

definition hex_char :: "nat \<Rightarrow> char" where
  "hex_char d = ''0123456789abcdef'' ! d"

definition json_escape_char :: "char \<Rightarrow> string" where
  "json_escape_char c =
     (if c = CHR 0x5C then [CHR 0x5C, CHR 0x5C]
      else if c = CHR 0x22 then [CHR 0x5C, CHR 0x22]
      else if c = CHR 0x08 then [CHR 0x5C, CHR ''b'']
      else if c = CHR 0x0C then [CHR 0x5C, CHR ''f'']
      else if c = CHR 0x0A then [CHR 0x5C, CHR ''n'']
      else if c = CHR 0x0D then [CHR 0x5C, CHR ''r'']
      else if c = CHR 0x09 then [CHR 0x5C, CHR ''t'']
      else if (of_char c :: nat) < 0x20 \<or> (of_char c :: nat) > 0x7E
        then [CHR 0x5C, CHR ''u'', CHR ''0'', CHR ''0'',
              hex_char (of_char c div 16), hex_char (of_char c mod 16)]
      else [c])"

definition encode_basestring_ascii :: "string \<Rightarrow> string" where
  "encode_basestring_ascii s = CHR 0x22 # concat (map json_escape_char s) @ [CHR 0x22]"

fun json_dumps :: "platform \<Rightarrow> json \<Rightarrow> string"
  and json_dumps_items :: "platform \<Rightarrow> (string \<times> json) list \<Rightarrow> string list" where
  "json_dumps P (JNumber x) = float_repr P x"
| "json_dumps P (JObject kvs) = ''{'' @ py_join '', '' (json_dumps_items P kvs) @ ''}''"
| "json_dumps_items P [] = []"
| "json_dumps_items P ((k, v) # kvs) =
     (encode_basestring_ascii k @ '': '' @ json_dumps P v) # json_dumps_items P kvs"

section \<open>The device, the terminal and the network as events\<close>

text \<open>
  Every call that reaches the device, the terminal or the network is an event of the
  run's trace. What the outside world answers (clock readings, the device's action, an
  interrupt, the outcome of a send, clients that open or close a connection) is input.
  A computation is a trace together with the exception it raised or the value it
  returned.
\<close>

record SO101LeaderConfig =
  leader_port :: string
  leader_id :: string

type_synonym client = nat

datatype event =
    Construct SO101LeaderConfig
  | Connect bool
  | Calibrate
  | Disconnect
  | GetAction
  | Print string
  | Write string
  | Flush
  | Serve string int
  | CloseServer
  | Send client string
  | Sleep real

type_synonym 'a io = "event list \<times> (exn + 'a)"

definition ret :: "'a \<Rightarrow> 'a io" where
  "ret x = ([], Inr x)"

definition raise :: "exn \<Rightarrow> 'a io" where
  "raise e = ([], Inl e)"

definition emit :: "event list \<Rightarrow> unit io" where
  "emit evs = (evs, Inr ())"

definition seq :: "'a io \<Rightarrow> ('a \<Rightarrow> 'b io) \<Rightarrow> 'b io" where
  "seq m f =
     (case m of
        (evs, Inl e) \<Rightarrow> (evs, Inl e)
      | (evs, Inr x) \<Rightarrow> (case f x of (evs', r) \<Rightarrow> (evs @ evs', r)))"

text \<open>\<^verbatim>\<open>a / b\<close>: true division raises on a zero divisor, for ints and for floats.\<close>

definition py_truediv :: "real \<Rightarrow> real \<Rightarrow> real io" where
  "py_truediv a b = (if b = 0 then raise ZeroDivisionError else ret (a / b))"

text \<open>A call of the device or of a blocking function: the event, then what the world answers.\<close>

definition call :: "event \<Rightarrow> exn option \<Rightarrow> unit io" where
  "call ev answer = ([ev], case answer of Some e \<Rightarrow> Inl e | None \<Rightarrow> Inr ())"

definition get_action :: "exn + action \<Rightarrow> action io" where
  "get_action answer = ([GetAction], answer)"

section \<open>Configuration and calibration\<close>

definition PORT_LEADER :: string where
  "PORT_LEADER = ''/dev/tty.usbmodem5A4B0479861''"

definition get_leader_config :: SO101LeaderConfig where
  "get_leader_config = \<lparr>leader_port = PORT_LEADER, leader_id = ''my_awesome_leader_arm''\<rparr>"

datatype outcome = Running | Returned | Raised exn

text \<open>
  What the world answers during one run of the program. A run is observed for finitely
  many ticks of its polling loop: \<open>test_ticks\<close> and \<open>ws_ticks\<close> hold one answer record
  per observed tick. The loops are \<^verbatim>\<open>while True\<close>: they end only by an exception, and a
  loop that is still going when the observation ends has the outcome \<open>Running\<close>.
\<close>

record test_env =
  te_start :: real
  te_action :: "exn + action"
  te_shown :: real
  te_done :: real
  te_sleep :: "exn option"

datatype client_event = Opened client | Closed client

record ws_env =
  ws_start :: real
  ws_action :: "exn + action"
  ws_time :: real
  ws_send :: "client \<Rightarrow> string option"
  ws_gather_clients :: "client_event list"
  ws_gather_interrupt :: "exn option"
  ws_sent :: real
  ws_sleep_clients :: "client_event list"
  ws_sleep_interrupt :: "exn option"
  ws_end :: real

record world =
  connect_result :: "exn option"
  calibrate_result :: "exn option"
  disconnect_result :: "exn option"
  test_ticks :: "test_env list"
  action_features :: "string list"
  serve_result :: "exn option"
  ws_ticks :: "ws_env list"

definition finish :: "unit io \<Rightarrow> event list \<times> outcome" where
  "finish m = (case m of (evs, Inl e) \<Rightarrow> (evs, Raised e) | (evs, Inr _) \<Rightarrow> (evs, Returned))"

definition calibrate_leader :: "world \<Rightarrow> event list \<times> outcome" where
  "calibrate_leader W =
     (let config = get_leader_config in
      finish
        (seq (emit [Construct config]) (\<lambda>_.
         seq (call (Connect False) (connect_result W)) (\<lambda>_.
         seq (call Calibrate (calibrate_result W)) (\<lambda>_.
         call Disconnect (disconnect_result W))))))"

section \<open>Test mode: \<^verbatim>\<open>test_leader\<close>\<close>

text \<open>
  Lines 50 to 56 and lines 146 to 152 of the source are the same statements: they build
  the single-line display of an action.
\<close>

definition short_name :: "string \<Rightarrow> string" where
  "short_name motor =
     py_replace ''wrist_'' ''w_''
       (py_replace ''elbow_'' ''e_''
         (py_replace ''shoulder_'' ''s_''
           (py_replace ''.pos'' [] motor)))"

definition action_str :: "platform \<Rightarrow> action \<Rightarrow> string" where
  "action_str P action =
     py_join '' | ''
       (map (\<lambda>(motor, v). short_name motor @ '':'' @ rjust 6 (format_f P 2 v)) action)"

definition timing_str :: "platform \<Rightarrow> real \<Rightarrow> string io" where
  "timing_str P loop_s =
     seq (py_truediv 1 loop_s) (\<lambda>hz.
     ret (''['' @ format_f P 1 (loop_s * 1000) @ ''ms, '' @ format_f P 0 hz @ ''Hz]''))"

definition clear_line :: string where
  "clear_line = [CHR 0x0D, CHR 0x1B, CHR ''['', CHR ''K'']"

text \<open>One iteration of the loop of \<^verbatim>\<open>test_leader\<close> (lines 44 to 71).\<close>

definition test_tick :: "platform \<Rightarrow> int \<Rightarrow> test_env \<Rightarrow> unit io" where
  "test_tick P fps env =
     (let loop_start = te_start env in
      seq (get_action (te_action env)) (\<lambda>action.
      let loop_s = te_shown env - loop_start in
      seq (timing_str P loop_s) (\<lambda>timing.
      seq (emit [Write (clear_line @ action_str P action @ '' '' @ timing), Flush]) (\<lambda>_.
      let dt_s = te_done env - loop_start in
      seq (py_truediv 1 (real_of_int fps)) (\<lambda>period.
      let sleep_time = max 0 (period - dt_s) in
      if sleep_time > 0 then call (Sleep sleep_time) (te_sleep env) else ret ())))))"

fun test_loop :: "platform \<Rightarrow> int \<Rightarrow> test_env list \<Rightarrow> event list \<times> exn option" where
  "test_loop P fps [] = ([], None)"
| "test_loop P fps (env # envs) =
     (case test_tick P fps env of
        (evs, Inl e) \<Rightarrow> (evs, Some e)
      | (evs, Inr _) \<Rightarrow> (case test_loop P fps envs of (evs', r) \<Rightarrow> (evs @ evs', r)))"

definition test_leader :: "platform \<Rightarrow> int \<Rightarrow> world \<Rightarrow> event list \<times> outcome" where
  "test_leader P fps W =
     (let config = get_leader_config in
      case seq (emit [Construct config]) (\<lambda>_. call (Connect True) (connect_result W)) of
        (evs0, Inl e) \<Rightarrow> (evs0, Raised e)
      | (evs0, Inr _) \<Rightarrow>
          let banner =
            [Print (''Leader device connected on '' @ PORT_LEADER),
             Print (''Displaying joint angles at '' @ str_int fps @ '' fps (Ctrl+C to stop)''),
             Print (replicate 80 CHR ''-'')]
          in
          (case test_loop P fps (test_ticks W) of
             (evs, None) \<Rightarrow> (evs0 @ banner @ evs, Running)
           | (evs, Some e) \<Rightarrow>
               let handler =
                 (if e = KeyboardInterrupt
                  then [Print ([CHR 0x0A, CHR 0x0A] @ ''Shutting down...'')] else [])
               in
               (case call Disconnect (disconnect_result W) of
                  (evs1, Inl e') \<Rightarrow> (evs0 @ banner @ evs @ handler @ evs1, Raised e')
                | (evs1, Inr _) \<Rightarrow>
                    (evs0 @ banner @ evs @ handler @ evs1 @ [Print ''Leader device disconnected''],
                     if e = KeyboardInterrupt then Returned else Raised e))))"

section \<open>Websocket mode: \<^verbatim>\<open>teleop_websocket\<close>\<close>

text \<open>
  \<^verbatim>\<open>connected_clients\<close> is a Python set; the model keeps it as a list without
  duplicates, whose order stands for the order in which Python iterates the set.
  \<^verbatim>\<open>handle_client\<close> runs once per connection: its first part when the connection opens,
  its \<^verbatim>\<open>finally\<close> part when the connection is closed. \<^verbatim>\<open>set.remove\<close> of a missing
  element raises inside the handler's own task, which ends there: the set and the
  broadcast loop are untouched.
\<close>

fun handle_client :: "client list \<Rightarrow> client_event \<Rightarrow> client list \<times> event list" where
  "handle_client cs (Opened websocket) =
     (let cs' = (if websocket \<in> set cs then cs else cs @ [websocket]) in
      (cs', [Print (''Client connected. Total clients: '' @ str_int (int (length cs')))]))"
| "handle_client cs (Closed websocket) =
     (if websocket \<in> set cs
      then (let cs' = removeAll websocket cs in
            (cs', [Print (''Client disconnected. Total clients: '' @ str_int (int (length cs')))]))
      else (cs, []))"

fun run_handlers :: "client list \<Rightarrow> client_event list \<Rightarrow> client list \<times> event list" where
  "run_handlers cs [] = (cs, [])"
| "run_handlers cs (ce # ces) =
     (case handle_client cs ce of
        (cs', evs) \<Rightarrow> (case run_handlers cs' ces of (cs'', evs') \<Rightarrow> (cs'', evs @ evs')))"

text \<open>
  An \<^verbatim>\<open>await\<close> gives the event loop to the connection handlers; an interrupt of the
  program reaches the coroutine at its \<^verbatim>\<open>await\<close>.
\<close>

definition await :: "client list \<Rightarrow> client_event list \<Rightarrow> exn option \<Rightarrow> client list io" where
  "await cs ces interrupt =
     (case run_handlers cs ces of
        (cs', evs) \<Rightarrow> (evs, case interrupt of Some e \<Rightarrow> Inl e | None \<Rightarrow> Inr cs'))"

text \<open>
  \<^verbatim>\<open>asyncio.gather\<close> over coroutines whose outcomes are \<open>None\<close> (returned) or
  \<open>Some name\<close> (raised the exception \<open>name\<close>): with \<^verbatim>\<open>return_exceptions\<close> the
  outcomes are the result, without it the first exception is raised.
\<close>

definition asyncio_gather :: "bool \<Rightarrow> string option list \<Rightarrow> exn + string option list" where
  "asyncio_gather return_exceptions results =
     (if return_exceptions then Inr results
      else (case List.find (\<lambda>r. r \<noteq> None) results of
              Some (Some name) \<Rightarrow> Inl (OtherException name)
            | _ \<Rightarrow> Inr results))"

definition dict_comprehension :: "('a \<Rightarrow> 'k) \<Rightarrow> ('a \<Rightarrow> 'v) \<Rightarrow> 'a list \<Rightarrow> ('k \<times> 'v) list" where
  "dict_comprehension key val xs = foldl (\<lambda>d x. AList.update (key x) (val x) d) [] xs"

definition py_float :: "real \<Rightarrow> real" where
  "py_float v = v"

text \<open>Lines 121 to 124: the dict that is serialised.\<close>

definition action_data :: "real \<Rightarrow> action \<Rightarrow> json" where
  "action_data now action =
     JObject
       [(''timestamp'', JNumber now),
        (''actions'',
         JObject (map (\<lambda>(k, v). (k, JNumber v))
           (dict_comprehension
              (\<lambda>(motor, v). py_replace ''.pos'' [] motor) (\<lambda>(motor, v). py_float v) action)))]"

text \<open>One iteration of the loop of \<^verbatim>\<open>broadcast_actions\<close> (lines 114 to 158).\<close>

definition broadcast_tick :: "platform \<Rightarrow> int \<Rightarrow> client list \<Rightarrow> ws_env \<Rightarrow> client list io" where
  "broadcast_tick P fps connected_clients env =
     (let loop_start = ws_start env in
      seq (get_action (ws_action env)) (\<lambda>action.
      let data = action_data (ws_time env) action in
      seq (if connected_clients \<noteq> []
           then (let message = json_dumps P data in
                 seq (map (\<lambda>c. Send c message) connected_clients,
                      asyncio_gather True (map (ws_send env) connected_clients)) (\<lambda>_.
                 await connected_clients (ws_gather_clients env) (ws_gather_interrupt env)))
           else ret connected_clients) (\<lambda>cs1.
      let dt_s = ws_sent env - loop_start in
      seq (py_truediv 1 (real_of_int fps)) (\<lambda>period.
      let sleep_time = max 0 (period - dt_s) in
      seq (if sleep_time > 0
           then seq (emit [Sleep sleep_time]) (\<lambda>_.
                await cs1 (ws_sleep_clients env) (ws_sleep_interrupt env))
           else ret cs1) (\<lambda>cs2.
      let loop_s = ws_end env - loop_start in
      seq (timing_str P loop_s) (\<lambda>timing.
      let client_str = ''clients:'' @ str_int (int (length cs2)) in
      seq (emit [Write (clear_line @ action_str P action @ '' '' @ timing @ '' '' @ client_str),
                 Flush]) (\<lambda>_.
      ret cs2)))))))"

fun broadcast_loop ::
  "platform \<Rightarrow> int \<Rightarrow> client list \<Rightarrow> ws_env list \<Rightarrow> event list \<times> exn option" where
  "broadcast_loop P fps cs [] = ([], None)"
| "broadcast_loop P fps cs (env # envs) =
     (case broadcast_tick P fps cs env of
        (evs, Inl e) \<Rightarrow> (evs, Some e)
      | (evs, Inr cs') \<Rightarrow> (case broadcast_loop P fps cs' envs of (evs', r) \<Rightarrow> (evs @ evs', r)))"

text \<open>
  \<^verbatim>\<open>broadcast_actions\<close>: line 111 takes the \<^verbatim>\<open>max\<close> over the device's action features,
  which raises \<^verbatim>\<open>ValueError\<close> when there are none; then the loop.
\<close>

definition broadcast_actions ::
  "platform \<Rightarrow> int \<Rightarrow> string list \<Rightarrow> client list \<Rightarrow> ws_env list \<Rightarrow> event list \<times> exn option" where
  "broadcast_actions P fps features cs envs =
     (if features = [] then ([], Some ValueError) else broadcast_loop P fps cs envs)"

text \<open>
  \<^verbatim>\<open>main\<close> (lines 160 to 169), run by \<^verbatim>\<open>asyncio.run\<close>: the server is closed when the
  \<^verbatim>\<open>async with\<close> block is left.
\<close>

definition main ::
  "platform \<Rightarrow> int \<Rightarrow> string \<Rightarrow> int \<Rightarrow> world \<Rightarrow> event list \<times> exn option" where
  "main P fps host port W =
     (case call (Serve host port) (serve_result W) of
        (evs, Inl e) \<Rightarrow> (evs, Some e)
      | (evs, Inr _) \<Rightarrow>
          let banner =
            [Print (''WebSocket server started on ws://'' @ host @ '':'' @ str_int port),
             Print (''Streaming actions at '' @ str_int fps @ '' fps''),
             Print (replicate 50 CHR ''-'')]
          in
          (case broadcast_actions P fps (action_features W) [] (ws_ticks W) of
             (evs', None) \<Rightarrow> (evs @ banner @ evs', None)
           | (evs', Some e) \<Rightarrow> (evs @ banner @ evs' @ [CloseServer], Some e)))"

definition teleop_websocket ::
  "platform \<Rightarrow> int \<Rightarrow> string \<Rightarrow> int \<Rightarrow> world \<Rightarrow> event list \<times> outcome" where
  "teleop_websocket P fps host port W =
     (let teleop_config = get_leader_config in
      case seq (emit [Construct teleop_config]) (\<lambda>_. call (Connect True) (connect_result W)) of
        (evs0, Inl e) \<Rightarrow> (evs0, Raised e)
      | (evs0, Inr _) \<Rightarrow>
          let banner = [Print (''Leader device connected on '' @ PORT_LEADER)] in
          (case main P fps host port W of
             (evs, None) \<Rightarrow> (evs0 @ banner @ evs, Running)
           | (evs, Some e) \<Rightarrow>
               let handler =
                 (if e = KeyboardInterrupt
                  then [Print (CHR 0x0A # ''Shutting down...'')] else [])
               in
               (case call Disconnect (disconnect_result W) of
                  (evs1, Inl e') \<Rightarrow> (evs0 @ banner @ evs @ handler @ evs1, Raised e')
                | (evs1, Inr _) \<Rightarrow>
                    (evs0 @ banner @ evs @ handler @ evs1 @ [Print ''Leader device disconnected''],
                     if e = KeyboardInterrupt then Returned else Raised e))))"

section \<open>The command line\<close>

text \<open>
  \<^verbatim>\<open>argparse\<close> accepts one of three modes and, for \<^verbatim>\<open>--fps\<close> and \<^verbatim>\<open>--port\<close>, any
  integer (\<^verbatim>\<open>type=int\<close>); the record is the parsed namespace.
\<close>

datatype mode = Mode_calibrate | Mode_test | Mode_websocket

record args =
  args_mode :: mode
  args_fps :: int
  args_host :: string
  args_port :: int

definition default_args :: "mode \<Rightarrow> args" where
  "default_args m = \<lparr>args_mode = m, args_fps = 30, args_host = ''localhost'', args_port = 8765\<rparr>"

definition dunder_main :: "platform \<Rightarrow> args \<Rightarrow> world \<Rightarrow> event list \<times> outcome" where
  "dunder_main P a W =
     (case args_mode a of
        Mode_calibrate \<Rightarrow> calibrate_leader W
      | Mode_test \<Rightarrow> test_leader P (args_fps a) W
      | Mode_websocket \<Rightarrow> teleop_websocket P (args_fps a) (args_host a) (args_port a) W)"

section \<open>Reading a trace\<close>

text \<open>
  The calls of one kind in a trace, in order: the configurations devices were built
  from, the messages sent with their receivers, the durations slept, the lines written
  to the terminal.
\<close>

definition constructs :: "event list \<Rightarrow> SO101LeaderConfig list" where
  "constructs evs = concat (map (\<lambda>ev. case ev of Construct c \<Rightarrow> [c] | _ \<Rightarrow> []) evs)"

definition sends :: "event list \<Rightarrow> (client \<times> string) list" where
  "sends evs = concat (map (\<lambda>ev. case ev of Send c m \<Rightarrow> [(c, m)] | _ \<Rightarrow> []) evs)"

definition sleeps :: "event list \<Rightarrow> real list" where
  "sleeps evs = concat (map (\<lambda>ev. case ev of Sleep d \<Rightarrow> [d] | _ \<Rightarrow> []) evs)"

definition writes :: "event list \<Rightarrow> string list" where
  "writes evs = concat (map (\<lambda>ev. case ev of Write s \<Rightarrow> [s] | _ \<Rightarrow> []) evs)"

text \<open>
  The iterations a loop ran over the observed answers: every answer record up to and
  including the first one whose iteration raised. The broadcast loop hands the set of
  connected clients from one iteration to the next, and nothing else.
\<close>

fun test_iterations :: "platform \<Rightarrow> int \<Rightarrow> test_env list \<Rightarrow> test_env list" where
  "test_iterations P fps [] = []"
| "test_iterations P fps (env # envs) =
     env # (case snd (test_tick P fps env) of
              Inl e \<Rightarrow> []
            | Inr u \<Rightarrow> test_iterations P fps envs)"

fun broadcast_iterations ::
  "platform \<Rightarrow> int \<Rightarrow> client list \<Rightarrow> ws_env list \<Rightarrow> (client list \<times> ws_env) list" where
  "broadcast_iterations P fps cs [] = []"
| "broadcast_iterations P fps cs (env # envs) =
     (cs, env) # (case snd (broadcast_tick P fps cs env) of
                    Inl e \<Rightarrow> []
                  | Inr cs' \<Rightarrow> broadcast_iterations P fps cs' envs)"

text \<open>The line that the broadcast loop writes to the terminal (lines 152 to 157).\<close>

definition ws_line :: "platform \<Rightarrow> action \<Rightarrow> real \<Rightarrow> nat \<Rightarrow> string" where
  "ws_line P action loop_s n =
     clear_line @ action_str P action @ '' '' @
       (''['' @ format_f P 1 (loop_s * 1000) @ ''ms, '' @ format_f P 0 (1 / loop_s) @ ''Hz]'') @
       '' '' @ (''clients:'' @ str_int (int n))"


text \<open>A string between double quotes, for writing down serialised JSON.\<close>

definition quoted :: "string \<Rightarrow> string" where
  "quoted s = CHR 0x22 # s @ [CHR 0x22]"

section \<open>Concrete answers\<close>

text \<open>
  Inputs on which the model is run: a platform whose float-to-text conversions print the
  integer part only (Python's print more digits), an action of two motors, and runs whose
  second tick is interrupted while it sleeps.
\<close>

definition example_platform :: platform where
  "example_platform =
     \<lparr>format_f = (\<lambda>n x. str_int \<lfloor>x\<rfloor>), float_repr = (\<lambda>x. str_int \<lfloor>x\<rfloor>)\<rparr>"

definition example_action :: action where
  "example_action = [(''shoulder_pan.pos'', 12), (''gripper.pos'', 3)]"

definition example_test_env :: test_env where
  "example_test_env =
     \<lparr>te_start = 0, te_action = Inr example_action, te_shown = 1 / 1000, te_done = 1 / 100,
      te_sleep = None\<rparr>"

definition example_ws_env :: ws_env where
  "example_ws_env =
     \<lparr>ws_start = 0, ws_action = Inr example_action, ws_time = 1700000000,
      ws_send = (\<lambda>c. if c = 1 then Some ''ConnectionClosed'' else None),
      ws_gather_clients = [], ws_gather_interrupt = None, ws_sent = 1 / 100,
      ws_sleep_clients = [Opened 2], ws_sleep_interrupt = None, ws_end = 1 / 30\<rparr>"

definition example_world :: world where
  "example_world =
     \<lparr>connect_result = None, calibrate_result = None, disconnect_result = None,
      test_ticks = [example_test_env, example_test_env\<lparr>te_sleep := Some KeyboardInterrupt\<rparr>],
      action_features = [''shoulder_pan.pos'', ''gripper.pos''],
      serve_result = None,
      ws_ticks = [example_ws_env, example_ws_env\<lparr>ws_sleep_interrupt := Some KeyboardInterrupt\<rparr>]\<rparr>"

section \<open>How the ticks unfold\<close>

lemma constructs_simps [simp]:
  "constructs [] = []"
  "constructs (ev # evs) = (case ev of Construct c \<Rightarrow> [c] | _ \<Rightarrow> []) @ constructs evs"
  "constructs (xs @ ys) = constructs xs @ constructs ys"
  by (simp_all add: constructs_def)

lemma sends_simps [simp]:
  "sends [] = []"
  "sends (ev # evs) = (case ev of Send c m \<Rightarrow> [(c, m)] | _ \<Rightarrow> []) @ sends evs"
  "sends (xs @ ys) = sends xs @ sends ys"
  by (simp_all add: sends_def)

lemma sleeps_simps [simp]:
  "sleeps [] = []"
  "sleeps (ev # evs) = (case ev of Sleep d \<Rightarrow> [d] | _ \<Rightarrow> []) @ sleeps evs"
  "sleeps (xs @ ys) = sleeps xs @ sleeps ys"
  by (simp_all add: sleeps_def)

lemma writes_simps [simp]:
  "writes [] = []"
  "writes (ev # evs) = (case ev of Write s \<Rightarrow> [s] | _ \<Rightarrow> []) @ writes evs"
  "writes (xs @ ys) = writes xs @ writes ys"
  by (simp_all add: writes_def)

lemma sends_map_Send [simp]: "sends (map (\<lambda>c. Send c m) cs) = map (\<lambda>c. (c, m)) cs"
  by (induction cs) simp_all

text \<open>The connection handlers only print.\<close>

lemma handle_client_prints: "\<exists>ss. snd (handle_client cs ce) = map Print ss"
proof (cases ce)
  case (Opened w)
  have "snd (handle_client cs (Opened w)) =
      map Print [''Client connected. Total clients: '' @
        str_int (int (length (if w \<in> set cs then cs else cs @ [w])))]"
    by (simp add: Let_def)
  with Opened show ?thesis by blast
next
  case (Closed w)
  show ?thesis
  proof (cases "w \<in> set cs")
    case True
    then have "snd (handle_client cs (Closed w)) =
        map Print [''Client disconnected. Total clients: '' @
          str_int (int (length (removeAll w cs)))]"
      by (simp add: Let_def)
    with Closed show ?thesis by blast
  next
    case False
    then have "snd (handle_client cs (Closed w)) = map Print []" by simp
    with Closed show ?thesis by blast
  qed
qed

lemma run_handlers_prints: "\<exists>ss. snd (run_handlers cs ces) = map Print ss"
proof (induction ces arbitrary: cs)
  case Nil
  have "snd (run_handlers cs []) = map Print []" by simp
  then show ?case by blast
next
  case (Cons ce ces)
  obtain cs' evs where h: "handle_client cs ce = (cs', evs)" by (cases "handle_client cs ce")
  obtain ss where s: "evs = map Print ss" using handle_client_prints [of cs ce] h by auto
  obtain ss' where s': "snd (run_handlers cs' ces) = map Print ss'" using Cons.IH by blast
  have "snd (run_handlers cs (ce # ces)) = map Print (ss @ ss')"
    using h s s' by (cases "run_handlers cs' ces") simp
  then show ?case by blast
qed

lemma observe_prints [simp]:
  "constructs (map Print ss) = []"
  "sends (map Print ss) = []"
  "sleeps (map Print ss) = []"
  "writes (map Print ss) = []"
  "count_list (map Print ss) GetAction = 0"
  "count_list (map Print ss) Disconnect = 0"
  "count_list (map Print ss) (Connect b) = 0"
  by (induction ss) simp_all

lemma observe_handlers [simp]:
  "constructs (snd (run_handlers cs ces)) = []"
  "sends (snd (run_handlers cs ces)) = []"
  "sleeps (snd (run_handlers cs ces)) = []"
  "writes (snd (run_handlers cs ces)) = []"
  "count_list (snd (run_handlers cs ces)) GetAction = 0"
  "count_list (snd (run_handlers cs ces)) Disconnect = 0"
  "count_list (snd (run_handlers cs ces)) (Connect b) = 0"
  using run_handlers_prints [of cs ces] by (auto simp del: count_notin)

lemma test_tick_unfold:
  "test_tick P fps env =
     (case te_action env of
        Inl e \<Rightarrow> ([GetAction], Inl e)
      | Inr action \<Rightarrow>
          if te_shown env - te_start env = 0 then ([GetAction], Inl ZeroDivisionError)
          else
            let shown =
              [GetAction,
               Write (clear_line @ action_str P action @ '' '' @
                  (''['' @ format_f P 1 ((te_shown env - te_start env) * 1000) @ ''ms, '' @
                   format_f P 0 (1 / (te_shown env - te_start env)) @ ''Hz]'')),
               Flush]
            in
            if fps = 0 then (shown, Inl ZeroDivisionError)
            else if 0 < 1 / real_of_int fps - (te_done env - te_start env)
              then (shown @ [Sleep (1 / real_of_int fps - (te_done env - te_start env))],
                    case te_sleep env of Some e \<Rightarrow> Inl e | None \<Rightarrow> Inr ())
              else (shown, Inr ()))"
  by (simp add: test_tick_def seq_def get_action_def timing_str_def py_truediv_def raise_def
      ret_def emit_def call_def Let_def max_def split: sum.splits)

lemma broadcast_tick_unfold:
  "broadcast_tick P fps cs env =
     (case ws_action env of
        Inl e \<Rightarrow> ([GetAction], Inl e)
      | Inr action \<Rightarrow>
          let message = json_dumps P (action_data (ws_time env) action);
              sent = (if cs \<noteq> []
                      then map (\<lambda>c. Send c message) cs @ snd (run_handlers cs (ws_gather_clients env))
                      else []);
              cs1 = (if cs \<noteq> [] then fst (run_handlers cs (ws_gather_clients env)) else cs);
              st = 1 / real_of_int fps - (ws_sent env - ws_start env);
              slept = (if 0 < st then Sleep st # snd (run_handlers cs1 (ws_sleep_clients env)) else []);
              cs2 = (if 0 < st then fst (run_handlers cs1 (ws_sleep_clients env)) else cs1)
          in
          if cs \<noteq> [] \<and> ws_gather_interrupt env \<noteq> None
            then (GetAction # sent, Inl (the (ws_gather_interrupt env)))
          else if fps = 0 then (GetAction # sent, Inl ZeroDivisionError)
          else if 0 < st \<and> ws_sleep_interrupt env \<noteq> None
            then (GetAction # sent @ slept, Inl (the (ws_sleep_interrupt env)))
          else if ws_end env - ws_start env = 0
            then (GetAction # sent @ slept, Inl ZeroDivisionError)
          else (GetAction # sent @ slept @
                  [Write (ws_line P action (ws_end env - ws_start env) (length cs2)), Flush],
                Inr cs2))"
  by (simp add: broadcast_tick_def seq_def get_action_def timing_str_def py_truediv_def raise_def
      ret_def emit_def call_def await_def asyncio_gather_def ws_line_def Let_def max_def
      split: sum.splits prod.splits option.splits)

lemma test_loop_Cons_fst:
  "fst (test_loop P fps (env # envs)) =
     fst (test_tick P fps env) @
     (case snd (test_tick P fps env) of Inl e \<Rightarrow> [] | Inr u \<Rightarrow> fst (test_loop P fps envs))"
  by (simp split: prod.splits sum.splits)

lemma test_loop_Cons_snd:
  "snd (test_loop P fps (env # envs)) =
     (case snd (test_tick P fps env) of Inl e \<Rightarrow> Some e | Inr u \<Rightarrow> snd (test_loop P fps envs))"
  by (simp split: prod.splits sum.splits)

lemma broadcast_loop_Cons_fst:
  "fst (broadcast_loop P fps cs (env # envs)) =
     fst (broadcast_tick P fps cs env) @
     (case snd (broadcast_tick P fps cs env) of
        Inl e \<Rightarrow> []
      | Inr cs' \<Rightarrow> fst (broadcast_loop P fps cs' envs))"
  by (simp split: prod.splits sum.splits)

lemma broadcast_loop_Cons_snd:
  "snd (broadcast_loop P fps cs (env # envs)) =
     (case snd (broadcast_tick P fps cs env) of
        Inl e \<Rightarrow> Some e
      | Inr cs' \<Rightarrow> snd (broadcast_loop P fps cs' envs))"
  by (simp split: prod.splits sum.splits)


lemma observe_map_Send [simp]:
  "constructs (map (\<lambda>c. Send c m) cs) = []"
  "sleeps (map (\<lambda>c. Send c m) cs) = []"
  "writes (map (\<lambda>c. Send c m) cs) = []"
  "count_list (map (\<lambda>c. Send c m) cs) GetAction = 0"
  "count_list (map (\<lambda>c. Send c m) cs) Disconnect = 0"
  "count_list (map (\<lambda>c. Send c m) cs) (Connect b) = 0"
  by (induction cs) simp_all

section \<open>One device configuration\<close>

lemma constructs_test_tick [simp]: "constructs (fst (test_tick P fps env)) = []"
  by (simp add: test_tick_unfold Let_def split: sum.splits)

lemma constructs_broadcast_tick [simp]: "constructs (fst (broadcast_tick P fps cs env)) = []"
  by (simp add: broadcast_tick_unfold Let_def split: sum.splits)

lemma constructs_test_loop [simp]: "constructs (fst (test_loop P fps envs)) = []"
proof (induction envs)
  case Nil
  show ?case by simp
next
  case (Cons env envs)
  then show ?case
    unfolding test_loop_Cons_fst by (simp split: sum.splits)
qed

lemma constructs_broadcast_loop [simp]: "constructs (fst (broadcast_loop P fps cs envs)) = []"
proof (induction envs arbitrary: cs)
  case Nil
  show ?case by simp
next
  case (Cons env envs)
  then show ?case
    unfolding broadcast_loop_Cons_fst by (simp split: sum.splits)
qed

lemma constructs_calibrate_leader: "constructs (fst (calibrate_leader W)) = [get_leader_config]"
  by (simp add: calibrate_leader_def finish_def seq_def emit_def call_def Let_def
      split: option.splits)

lemma constructs_test_leader: "constructs (fst (test_leader P fps W)) = [get_leader_config]"
proof -
  obtain evs r where l: "test_loop P fps (test_ticks W) = (evs, r)"
    by (cases "test_loop P fps (test_ticks W)")
  have "constructs evs = []"
    using constructs_test_loop [of P fps "test_ticks W"] l by simp
  with l show ?thesis
    by (simp add: test_leader_def seq_def emit_def call_def Let_def split: option.splits)
qed

lemma constructs_main [simp]: "constructs (fst (main P fps host port W)) = []"
proof -
  obtain evs r where l: "broadcast_loop P fps [] (ws_ticks W) = (evs, r)"
    by (cases "broadcast_loop P fps [] (ws_ticks W)")
  have "constructs evs = []"
    using constructs_broadcast_loop [of P fps "[]" "ws_ticks W"] l by simp
  with l show ?thesis
    by (simp add: main_def call_def broadcast_actions_def Let_def split: option.splits)
qed

lemma constructs_teleop_websocket:
  "constructs (fst (teleop_websocket P fps host port W)) = [get_leader_config]"
proof -
  obtain evs r where l: "main P fps host port W = (evs, r)"
    by (cases "main P fps host port W")
  have "constructs evs = []"
    using constructs_main [of P fps host port W] l by simp
  with l show ?thesis
    by (simp add: teleop_websocket_def seq_def emit_def call_def Let_def split: option.splits)
qed

text \<open>
  Claim C7. \<^verbatim>\<open>get_leader_config\<close> returns the configuration whose port is
  \<^verbatim>\<open>PORT_LEADER\<close> and whose id is \<^verbatim>\<open>my_awesome_leader_arm\<close>, and each of the three
  entry points, and so the command line whatever its mode and flags, builds exactly one
  device, from that configuration.
\<close>

theorem shared_leader_config:
  "leader_port get_leader_config = PORT_LEADER
   \<and> leader_id get_leader_config = ''my_awesome_leader_arm''
   \<and> constructs (fst (calibrate_leader W)) = [get_leader_config]
   \<and> constructs (fst (test_leader P fps W)) = [get_leader_config]
   \<and> constructs (fst (teleop_websocket P fps host port W)) = [get_leader_config]
   \<and> constructs (fst (dunder_main P a W)) = [get_leader_config]"
  by (simp add: constructs_calibrate_leader constructs_test_leader constructs_teleop_websocket
      dunder_main_def get_leader_config_def split: mode.splits)


section \<open>The broadcast\<close>

lemma broadcast_tick_sends:
  "sends (fst (broadcast_tick P fps cs env)) =
     (case ws_action env of
        Inl e \<Rightarrow> []
      | Inr action \<Rightarrow> map (\<lambda>c. (c, json_dumps P (action_data (ws_time env) action))) cs)"
  by (simp add: broadcast_tick_unfold Let_def split: sum.splits)

text \<open>
  Claim C2. In one tick of the broadcast loop the sends are, in order, one to each
  client of the connected set, and all of them carry the one string that
  \<^verbatim>\<open>json.dumps\<close> made of this tick's data (a tick whose \<^verbatim>\<open>get_action\<close> raised sends
  nothing).
\<close>

theorem broadcast_same_payload:
  "sends (fst (broadcast_tick P fps cs env)) =
     (case ws_action env of
        Inl e \<Rightarrow> []
      | Inr action \<Rightarrow> map (\<lambda>c. (c, json_dumps P (action_data (ws_time env) action))) cs)
   \<and> set (map snd (sends (fst (broadcast_tick P fps cs env)))) \<subseteq>
       (case ws_action env of
          Inl e \<Rightarrow> {}
        | Inr action \<Rightarrow> {json_dumps P (action_data (ws_time env) action)})"
  by (auto simp: broadcast_tick_sends split: sum.splits)

lemma broadcast_tick_send_outcomes:
  "broadcast_tick P fps cs (env\<lparr>ws_send := f\<rparr>) = broadcast_tick P fps cs (env\<lparr>ws_send := g\<rparr>)"
  by (simp add: broadcast_tick_unfold Let_def split: sum.splits)

text \<open>
  Claim C4. Whatever the sends of a tick do (\<open>f\<close> says which of them raise), the tick
  is the one it would have been with other outcomes \<open>g\<close>, for instance with every send
  succeeding: the same trace, the same exception or the same next state. Every client of
  the connected set is sent to exactly once, so a failed send is not repeated and the
  others are not skipped; \<^verbatim>\<open>gather\<close> with \<^verbatim>\<open>return_exceptions=True\<close> returns the
  exceptions as results.
\<close>

theorem failed_send_collected:
  "broadcast_tick P fps cs (env\<lparr>ws_send := f\<rparr>) = broadcast_tick P fps cs (env\<lparr>ws_send := g\<rparr>)
   \<and> map fst (sends (fst (broadcast_tick P fps cs (env\<lparr>ws_send := f\<rparr>)))) =
       (case ws_action env of Inl e \<Rightarrow> [] | Inr action \<Rightarrow> cs)
   \<and> asyncio_gather True (map f cs) = Inr (map f cs)"
  using broadcast_tick_send_outcomes [where P = P and fps = fps and cs = cs and env = env
      and f = f and g = g]
  by (simp add: broadcast_tick_sends asyncio_gather_def comp_def split: sum.splits)

section \<open>One action per tick\<close>

lemma test_tick_get_action: "count_list (fst (test_tick P fps env)) GetAction = 1"
  by (simp add: test_tick_unfold Let_def split: sum.splits)

lemma broadcast_tick_get_action: "count_list (fst (broadcast_tick P fps cs env)) GetAction = 1"
  by (simp add: broadcast_tick_unfold Let_def split: sum.splits)

lemma test_loop_iterations:
  "fst (test_loop P fps envs) =
     concat (map (\<lambda>env. fst (test_tick P fps env)) (test_iterations P fps envs))"
proof (induction envs)
  case Nil
  show ?case by simp
next
  case (Cons env envs)
  then show ?case
    unfolding test_loop_Cons_fst by (simp split: sum.splits)
qed

lemma broadcast_loop_iterations:
  "fst (broadcast_loop P fps cs envs) =
     concat (map (\<lambda>(cs, env). fst (broadcast_tick P fps cs env))
       (broadcast_iterations P fps cs envs))"
proof (induction envs arbitrary: cs)
  case Nil
  show ?case by simp
next
  case (Cons env envs)
  then show ?case
    unfolding broadcast_loop_Cons_fst by (simp split: sum.splits)
qed

lemma test_loop_get_actions:
  "count_list (fst (test_loop P fps envs)) GetAction = length (test_iterations P fps envs)"
proof (induction envs)
  case Nil
  show ?case by simp
next
  case (Cons env envs)
  then show ?case
    unfolding test_loop_Cons_fst by (simp add: test_tick_get_action split: sum.splits)
qed

lemma broadcast_loop_get_actions:
  "count_list (fst (broadcast_loop P fps cs envs)) GetAction =
     length (broadcast_iterations P fps cs envs)"
proof (induction envs arbitrary: cs)
  case Nil
  show ?case by simp
next
  case (Cons env envs)
  then show ?case
    unfolding broadcast_loop_Cons_fst by (simp add: broadcast_tick_get_action split: sum.splits)
qed

text \<open>
  Claim C5. Every iteration of either loop calls \<^verbatim>\<open>get_action\<close> exactly once. The
  trace of a loop is the traces of its iterations one after the other, and the trace of
  an iteration is a function of that iteration's own answers, among them its action
  (and, in websocket mode, of the connected set): no action reaches a later iteration.
  So a loop calls \<^verbatim>\<open>get_action\<close> as many times as it ran iterations.
\<close>

theorem one_action_per_tick:
  "count_list (fst (test_tick P fps env)) GetAction = 1
   \<and> count_list (fst (broadcast_tick P fps cs wenv)) GetAction = 1
   \<and> fst (test_loop P fps envs) =
       concat (map (\<lambda>env. fst (test_tick P fps env)) (test_iterations P fps envs))
   \<and> fst (broadcast_loop P fps cs wenvs) =
       concat (map (\<lambda>(cs, env). fst (broadcast_tick P fps cs env))
         (broadcast_iterations P fps cs wenvs))
   \<and> count_list (fst (test_loop P fps envs)) GetAction = length (test_iterations P fps envs)
   \<and> count_list (fst (broadcast_loop P fps cs wenvs)) GetAction =
       length (broadcast_iterations P fps cs wenvs)"
  using test_tick_get_action [of P fps env] broadcast_tick_get_action [of P fps cs wenv]
    test_loop_iterations [of P fps envs] broadcast_loop_iterations [of P fps cs wenvs]
    test_loop_get_actions [of P fps envs] broadcast_loop_get_actions [of P fps cs wenvs]
  by blast

section \<open>A tick without clients\<close>






section \<open>Pacing\<close>





section \<open>A zero frame rate\<close>

lemma test_tick_zero_fps:
  assumes "te_action env = Inr action"
  shows "snd (test_tick P 0 env) = Inl ZeroDivisionError"
    and "sleeps (fst (test_tick P 0 env)) = []"
    and "te_shown env \<noteq> te_start env \<Longrightarrow> writes (fst (test_tick P 0 env)) \<noteq> []"
  using assms by (simp_all add: test_tick_unfold Let_def)

lemma broadcast_tick_zero_fps:
  assumes "ws_action env = Inr action" and "cs = [] \<or> ws_gather_interrupt env = None"
  shows "snd (broadcast_tick P 0 cs env) = Inl ZeroDivisionError"
    and "sleeps (fst (broadcast_tick P 0 cs env)) = []"
    and "writes (fst (broadcast_tick P 0 cs env)) = []"
  using assms by (auto simp: broadcast_tick_unfold Let_def)

lemma test_leader_zero_fps:
  assumes "connect_result W = None" and "disconnect_result W = None"
    and "test_ticks W = env # envs" and "te_action env = Inr action"
  shows "snd (test_leader P 0 W) = Raised ZeroDivisionError
     \<and> count_list (fst (test_leader P 0 W)) GetAction = 1
     \<and> sleeps (fst (test_leader P 0 W)) = []"
proof -
  have l: "test_loop P 0 (test_ticks W) = (fst (test_tick P 0 env), Some ZeroDivisionError)"
    using test_tick_zero_fps(1) [OF assms(4), of P] assms(3)
    by (cases "test_tick P 0 env") simp
  show ?thesis
    using assms(1,2) test_tick_zero_fps(2) [OF assms(4), of P] test_tick_get_action [of P 0 env]
    by (simp add: test_leader_def l seq_def emit_def call_def Let_def)
qed

lemma teleop_websocket_zero_fps:
  assumes "connect_result W = None" and "disconnect_result W = None"
    and "serve_result W = None" and "action_features W \<noteq> []"
    and "ws_ticks W = env # envs" and "ws_action env = Inr action"
  shows "snd (teleop_websocket P 0 host port W) = Raised ZeroDivisionError
     \<and> count_list (fst (teleop_websocket P 0 host port W)) GetAction = 1
     \<and> sleeps (fst (teleop_websocket P 0 host port W)) = []"
proof -
  have l: "broadcast_loop P 0 [] (ws_ticks W) =
      (fst (broadcast_tick P 0 [] env), Some ZeroDivisionError)"
    using broadcast_tick_zero_fps(1) [OF assms(6), of "[]" P] assms(5)
    by (cases "broadcast_tick P 0 [] env") simp
  have m: "main P 0 host port W =
      ([Serve host port,
        Print (''WebSocket server started on ws://'' @ host @ '':'' @ str_int port),
        Print (''Streaming actions at '' @ str_int 0 @ '' fps''),
        Print (replicate 50 CHR ''-'')] @
       fst (broadcast_tick P 0 [] env) @ [CloseServer], Some ZeroDivisionError)"
    using assms(3,4) by (simp add: main_def broadcast_actions_def l call_def Let_def)
  show ?thesis
    using assms(1,2) broadcast_tick_zero_fps(2) [OF assms(6), of "[]" P]
      broadcast_tick_get_action [of P 0 "[]" env]
    by (simp add: teleop_websocket_def m seq_def emit_def call_def Let_def)
qed

text \<open>
  Claim C8. The parsed \<^verbatim>\<open>--fps\<close> is any integer. Let it be 0, let the device connect
  and disconnect without error and answer the first \<^verbatim>\<open>get_action\<close> (and, in websocket
  mode, let the server start and the device have action features). Then test mode and
  websocket mode both end with \<^verbatim>\<open>ZeroDivisionError\<close> in their first tick, after one
  \<^verbatim>\<open>get_action\<close> and without ever sleeping. In the test loop the line was already
  written when the timing display did not itself divide by zero, so the exception is
  that of \<^verbatim>\<open>1 / fps\<close>; in the broadcast loop nothing was written yet, and the same
  holds for a tick with clients whose broadcast was not interrupted.
\<close>

theorem zero_fps_raises:
  assumes "args_fps a = 0"
    and "connect_result W = None" and "disconnect_result W = None"
    and "test_ticks W = env # envs" and "te_action env = Inr action"
    and "serve_result W = None" and "action_features W \<noteq> []"
    and "ws_ticks W = wenv # wenvs" and "ws_action wenv = Inr waction"
  shows
    "(args_mode a = Mode_test \<longrightarrow>
        snd (dunder_main P a W) = Raised ZeroDivisionError
        \<and> count_list (fst (dunder_main P a W)) GetAction = 1
        \<and> sleeps (fst (dunder_main P a W)) = [])
     \<and> (args_mode a = Mode_websocket \<longrightarrow>
        snd (dunder_main P a W) = Raised ZeroDivisionError
        \<and> count_list (fst (dunder_main P a W)) GetAction = 1
        \<and> sleeps (fst (dunder_main P a W)) = [])
     \<and> snd (test_tick P 0 env) = Inl ZeroDivisionError
     \<and> (te_shown env \<noteq> te_start env \<longrightarrow> writes (fst (test_tick P 0 env)) \<noteq> [])
     \<and> (cs = [] \<or> ws_gather_interrupt wenv = None \<longrightarrow>
          snd (broadcast_tick P 0 cs wenv) = Inl ZeroDivisionError
          \<and> writes (fst (broadcast_tick P 0 cs wenv)) = [])"
proof -
  have t: "snd (test_leader P 0 W) = Raised ZeroDivisionError
      \<and> count_list (fst (test_leader P 0 W)) GetAction = 1
      \<and> sleeps (fst (test_leader P 0 W)) = []"
    using test_leader_zero_fps [OF assms(2) assms(3) assms(4) assms(5)] .
  have w: "snd (teleop_websocket P 0 (args_host a) (args_port a) W) = Raised ZeroDivisionError
      \<and> count_list (fst (teleop_websocket P 0 (args_host a) (args_port a) W)) GetAction = 1
      \<and> sleeps (fst (teleop_websocket P 0 (args_host a) (args_port a) W)) = []"
    using teleop_websocket_zero_fps [OF assms(2) assms(3) assms(6) assms(7) assms(8) assms(9)] .
  have b: "cs = [] \<or> ws_gather_interrupt wenv = None \<Longrightarrow>
      snd (broadcast_tick P 0 cs wenv) = Inl ZeroDivisionError
      \<and> writes (fst (broadcast_tick P 0 cs wenv)) = []"
    using broadcast_tick_zero_fps(1,3) [OF assms(9)] by simp
  show ?thesis
    using t w b test_tick_zero_fps(1,3) [OF assms(5), of P] assms(1)
    by (simp add: dunder_main_def)
qed

theorem zero_fps_raises_example:
  "snd (dunder_main example_platform ((default_args Mode_test)\<lparr>args_fps := 0\<rparr>) example_world) =
     Raised ZeroDivisionError
   \<and> snd (dunder_main example_platform ((default_args Mode_websocket)\<lparr>args_fps := 0\<rparr>)
        example_world) = Raised ZeroDivisionError
   \<and> snd (broadcast_tick example_platform 0 [1, 2] example_ws_env) = Inl ZeroDivisionError"
  using
    zero_fps_raises [where a = "(default_args Mode_test)\<lparr>args_fps := 0\<rparr>" and W = example_world
      and env = example_test_env
      and envs = "[example_test_env\<lparr>te_sleep := Some KeyboardInterrupt\<rparr>]"
      and action = example_action and wenv = example_ws_env
      and wenvs = "[example_ws_env\<lparr>ws_sleep_interrupt := Some KeyboardInterrupt\<rparr>]"
      and waction = example_action and P = example_platform and cs = "[1, 2]"]
    zero_fps_raises [where a = "(default_args Mode_websocket)\<lparr>args_fps := 0\<rparr>"
      and W = example_world and env = example_test_env
      and envs = "[example_test_env\<lparr>te_sleep := Some KeyboardInterrupt\<rparr>]"
      and action = example_action and wenv = example_ws_env
      and wenvs = "[example_ws_env\<lparr>ws_sleep_interrupt := Some KeyboardInterrupt\<rparr>]"
      and waction = example_action and P = example_platform and cs = "[1, 2]"]
  by (simp add: default_args_def example_world_def example_test_env_def example_ws_env_def)


section \<open>Shutdown\<close>

lemma test_tick_device_calls [simp]:
  "count_list (fst (test_tick P fps env)) Disconnect = 0"
  "count_list (fst (test_tick P fps env)) (Connect b) = 0"
  by (simp_all add: test_tick_unfold Let_def split: sum.splits)

lemma broadcast_tick_device_calls [simp]:
  "count_list (fst (broadcast_tick P fps cs env)) Disconnect = 0"
  "count_list (fst (broadcast_tick P fps cs env)) (Connect b) = 0"
  by (simp_all add: broadcast_tick_unfold Let_def split: sum.splits)

lemma test_loop_device_calls [simp]:
  "count_list (fst (test_loop P fps envs)) Disconnect = 0"
  "count_list (fst (test_loop P fps envs)) (Connect b) = 0"
proof (induction envs)
  case Nil
  {
    case 1 show ?case by simp
  next
    case 2 show ?case by simp
  }
next
  case (Cons env envs)
  {
    case 1 with Cons show ?case
      unfolding test_loop_Cons_fst by (simp split: sum.splits)
  next
    case 2 with Cons show ?case
      unfolding test_loop_Cons_fst by (simp split: sum.splits)
  }
qed

lemma broadcast_loop_device_calls [simp]:
  "count_list (fst (broadcast_loop P fps cs envs)) Disconnect = 0"
  "count_list (fst (broadcast_loop P fps cs envs)) (Connect b) = 0"
proof (induction envs arbitrary: cs)
  case Nil
  {
    case 1 show ?case by simp
  next
    case 2 show ?case by simp
  }
next
  case (Cons env envs)
  {
    case 1 with Cons show ?case
      unfolding broadcast_loop_Cons_fst by (simp split: sum.splits)
  next
    case 2 with Cons show ?case
      unfolding broadcast_loop_Cons_fst by (simp split: sum.splits)
  }
qed

lemma main_device_calls [simp]:
  "count_list (fst (main P fps host port W)) Disconnect = 0"
  "count_list (fst (main P fps host port W)) (Connect b) = 0"
proof -
  obtain evs r where l: "broadcast_loop P fps [] (ws_ticks W) = (evs, r)"
    by (cases "broadcast_loop P fps [] (ws_ticks W)")
  have "count_list evs Disconnect = 0" and "count_list evs (Connect b) = 0"
    using broadcast_loop_device_calls [of P fps "[]" "ws_ticks W"] l by simp_all
  with l show "count_list (fst (main P fps host port W)) Disconnect = 0"
    and "count_list (fst (main P fps host port W)) (Connect b) = 0"
    by (simp_all add: main_def call_def broadcast_actions_def Let_def split: option.splits)
qed

lemma test_leader_shutdown:
  assumes "connect_result W = None"
  shows "count_list (fst (test_leader P fps W)) Disconnect =
      (if snd (test_leader P fps W) = Running then 0 else 1)"
    and "count_list (fst (test_leader P fps W)) (Connect True) = 1"
    and "snd (test_leader P fps W) = Running \<longleftrightarrow> snd (test_loop P fps (test_ticks W)) = None"
    and "snd (test_loop P fps (test_ticks W)) = Some KeyboardInterrupt \<Longrightarrow>
      disconnect_result W = None \<Longrightarrow>
      snd (test_leader P fps W) = Returned
      \<and> suffix [Print ([CHR 0x0A, CHR 0x0A] @ ''Shutting down...''), Disconnect,
                 Print ''Leader device disconnected'']
           (fst (test_leader P fps W))"
proof -
  obtain evs r where l: "test_loop P fps (test_ticks W) = (evs, r)"
    by (cases "test_loop P fps (test_ticks W)")
  have c: "count_list evs Disconnect = 0" "count_list evs (Connect True) = 0"
    using test_loop_device_calls [of P fps "test_ticks W"] l by simp_all
  show "count_list (fst (test_leader P fps W)) Disconnect =
      (if snd (test_leader P fps W) = Running then 0 else 1)"
    using assms l c
    by (simp add: test_leader_def seq_def emit_def call_def Let_def split: option.splits)
  show "count_list (fst (test_leader P fps W)) (Connect True) = 1"
    using assms l c
    by (simp add: test_leader_def seq_def emit_def call_def Let_def split: option.splits)
  show "snd (test_leader P fps W) = Running \<longleftrightarrow> snd (test_loop P fps (test_ticks W)) = None"
    using assms l
    by (simp add: test_leader_def seq_def emit_def call_def Let_def split: option.splits)
  show "snd (test_leader P fps W) = Returned
      \<and> suffix [Print ([CHR 0x0A, CHR 0x0A] @ ''Shutting down...''), Disconnect,
                 Print ''Leader device disconnected'']
           (fst (test_leader P fps W))"
    if "snd (test_loop P fps (test_ticks W)) = Some KeyboardInterrupt"
      and "disconnect_result W = None"
    using assms l that
    by (simp add: test_leader_def seq_def emit_def call_def Let_def suffix_def)
qed

lemma teleop_websocket_shutdown:
  assumes "connect_result W = None"
  shows "count_list (fst (teleop_websocket P fps host port W)) Disconnect =
      (if snd (teleop_websocket P fps host port W) = Running then 0 else 1)"
    and "count_list (fst (teleop_websocket P fps host port W)) (Connect True) = 1"
    and "snd (teleop_websocket P fps host port W) = Running \<longleftrightarrow>
      snd (main P fps host port W) = None"
    and "snd (main P fps host port W) = Some KeyboardInterrupt \<Longrightarrow>
      disconnect_result W = None \<Longrightarrow>
      snd (teleop_websocket P fps host port W) = Returned
      \<and> suffix [Print (CHR 0x0A # ''Shutting down...''), Disconnect,
                 Print ''Leader device disconnected'']
           (fst (teleop_websocket P fps host port W))"
proof -
  obtain evs r where l: "main P fps host port W = (evs, r)"
    by (cases "main P fps host port W")
  have c: "count_list evs Disconnect = 0" "count_list evs (Connect True) = 0"
    using main_device_calls [of P fps host port W] l by simp_all
  show "count_list (fst (teleop_websocket P fps host port W)) Disconnect =
      (if snd (teleop_websocket P fps host port W) = Running then 0 else 1)"
    using assms l c
    by (simp add: teleop_websocket_def seq_def emit_def call_def Let_def split: option.splits)
  show "count_list (fst (teleop_websocket P fps host port W)) (Connect True) = 1"
    using assms l c
    by (simp add: teleop_websocket_def seq_def emit_def call_def Let_def split: option.splits)
  show "snd (teleop_websocket P fps host port W) = Running \<longleftrightarrow>
      snd (main P fps host port W) = None"
    using assms l
    by (simp add: teleop_websocket_def seq_def emit_def call_def Let_def split: option.splits)
  show "snd (teleop_websocket P fps host port W) = Returned
      \<and> suffix [Print (CHR 0x0A # ''Shutting down...''), Disconnect,
                 Print ''Leader device disconnected'']
           (fst (teleop_websocket P fps host port W))"
    if "snd (main P fps host port W) = Some KeyboardInterrupt"
      and "disconnect_result W = None"
    using assms l that
    by (simp add: teleop_websocket_def seq_def emit_def call_def Let_def suffix_def)
qed

text \<open>
  Claim C3. Let the device connect. In test mode and in websocket mode the device is
  connected once, and \<^verbatim>\<open>disconnect\<close> is called exactly once as soon as the polling loop
  (in websocket mode: \<^verbatim>\<open>asyncio.run(main())\<close>) is left, by whatever exception, and
  not before: the run is still going exactly when the loop is. The loops have no normal
  exit. When the exception is \<^verbatim>\<open>KeyboardInterrupt\<close> and the device disconnects without
  error, the entry point returns normally, and its last three calls are the shutdown
  message, \<^verbatim>\<open>disconnect\<close> and the final message.
\<close>

theorem shutdown_disconnects_once:
  assumes "connect_result W = None"
  shows
    "count_list (fst (test_leader P fps W)) Disconnect =
       (if snd (test_leader P fps W) = Running then 0 else 1)
     \<and> count_list (fst (teleop_websocket P fps host port W)) Disconnect =
       (if snd (teleop_websocket P fps host port W) = Running then 0 else 1)
     \<and> count_list (fst (test_leader P fps W)) (Connect True) = 1
     \<and> count_list (fst (teleop_websocket P fps host port W)) (Connect True) = 1
     \<and> (snd (test_leader P fps W) = Running \<longleftrightarrow> snd (test_loop P fps (test_ticks W)) = None)
     \<and> (snd (teleop_websocket P fps host port W) = Running \<longleftrightarrow>
          snd (main P fps host port W) = None)
     \<and> (snd (test_loop P fps (test_ticks W)) = Some KeyboardInterrupt
          \<and> disconnect_result W = None \<longrightarrow>
        snd (test_leader P fps W) = Returned
        \<and> suffix [Print ([CHR 0x0A, CHR 0x0A] @ ''Shutting down...''), Disconnect,
                   Print ''Leader device disconnected'']
             (fst (test_leader P fps W)))
     \<and> (snd (main P fps host port W) = Some KeyboardInterrupt
          \<and> disconnect_result W = None \<longrightarrow>
        snd (teleop_websocket P fps host port W) = Returned
        \<and> suffix [Print (CHR 0x0A # ''Shutting down...''), Disconnect,
                   Print ''Leader device disconnected'']
             (fst (teleop_websocket P fps host port W)))"
  using test_leader_shutdown [OF assms, of P fps]
    teleop_websocket_shutdown [OF assms, of P fps host port]
  by blast

lemma example_test_loop_interrupted:
  "snd (test_loop example_platform 30 (test_ticks example_world)) = Some KeyboardInterrupt"
  by (simp add: example_world_def example_test_env_def test_loop_Cons_snd test_tick_unfold
      Let_def)

lemma example_main_interrupted:
  "snd (main example_platform 30 ''localhost'' 8765 example_world) = Some KeyboardInterrupt"
proof -
  have "snd (broadcast_loop example_platform 30 [] (ws_ticks example_world)) =
      Some KeyboardInterrupt"
    by (simp add: example_world_def example_ws_env_def broadcast_loop_Cons_snd
        broadcast_tick_unfold Let_def)
  then show ?thesis
    by (cases "broadcast_loop example_platform 30 [] (ws_ticks example_world)")
      (simp add: main_def broadcast_actions_def call_def Let_def example_world_def)
qed

theorem shutdown_disconnects_once_example:
  "snd (test_leader example_platform 30 example_world) = Returned
   \<and> count_list (fst (test_leader example_platform 30 example_world)) Disconnect = 1
   \<and> snd (teleop_websocket example_platform 30 ''localhost'' 8765 example_world) = Returned
   \<and> count_list (fst (teleop_websocket example_platform 30 ''localhost'' 8765 example_world))
       Disconnect = 1"
proof -
  have c: "connect_result example_world = None" and d: "disconnect_result example_world = None"
    by (simp_all add: example_world_def)
  show ?thesis
    using shutdown_disconnects_once [OF c, of example_platform 30 "''localhost''" 8765]
      example_test_loop_interrupted example_main_interrupted d
    by simp
qed


section \<open>Joint names\<close>












lemma collapse_example:
  "dict_comprehension (\<lambda>(motor, v). py_replace ''.pos'' [] motor) (\<lambda>(motor, v). py_float v)
     [(''grip.pos'', 1), (''wrist.pos'', 5), (''gr.posip'', 2)] = [(''grip'', 2), (''wrist'', 5)]"
  by (simp add: dict_comprehension_def py_float_def)

section \<open>The payload\<close>



section \<open>The model on the concrete answers\<close>

lemma str_nat_small: "n < 10 \<Longrightarrow> str_nat n = [digit_char n]"
  by (simp add: str_nat.simps)

lemma str_nat_large:
  "\<not> n < 10 \<Longrightarrow> str_nat n = str_nat (n div 10) @ [digit_char (n mod 10)]"
  by (subst str_nat.simps) simp

lemmas str_int_run = str_int_def str_nat_small str_nat_large digit_char_def

lemma str_int_examples:
  "str_int 30 = ''30''" "str_int 8765 = ''8765''" "str_int (- 5) = ''-5''" "str_int 0 = ''0''"
  by (simp_all add: str_int_run)

lemma short_name_examples:
  "short_name ''shoulder_pan.pos'' = ''s_pan''"
  "short_name ''elbow_flex.pos'' = ''e_flex''"
  "short_name ''wrist_roll.pos'' = ''w_roll''"
  "short_name ''gripper.pos'' = ''gripper''"
  by (simp_all add: short_name_def)

lemma rjust_examples: "rjust 6 ''12'' = ''    12''" "rjust 6 ''3'' = ''     3''"
  by (simp_all add: rjust_def numeral_eq_Suc)

lemma example_format_f:
  "format_f example_platform n 12 = ''12''" "format_f example_platform n 3 = ''3''"
  by (simp_all add: example_platform_def str_int_run)

lemma example_action_str:
  "action_str example_platform example_action = ''s_pan:    12 | gripper:     3''"
  by (simp add: example_action_def action_str_def short_name_examples example_format_f
      rjust_examples)

lemma example_timing:
  "format_f example_platform n 1 = ''1''"
  "format_f example_platform n 1000 = ''1000''"
  "format_f example_platform n (100 / 3) = ''33''"
  "format_f example_platform n 30 = ''30''"
  by (simp_all add: example_platform_def str_int_run)

lemma example_test_tick:
  "test_tick example_platform 30 example_test_env =
     ([GetAction,
       Write (clear_line @ ''s_pan:    12 | gripper:     3 [1ms, 1000Hz]''),
       Flush,
       Sleep (7 / 300)],
      Inr ())"
  unfolding test_tick_unfold
  by (simp add: example_test_env_def example_action_str example_timing)

lemma example_message:
  "json_dumps example_platform (action_data 1700000000 example_action) =
     ''{'' @ quoted ''timestamp'' @ '': 1700000000, '' @ quoted ''actions'' @ '': {'' @
       quoted ''shoulder_pan'' @ '': 12, '' @ quoted ''gripper'' @ '': 3}}''"
proof -
  have k: "encode_basestring_ascii ''timestamp'' = quoted ''timestamp''"
    "encode_basestring_ascii ''actions'' = quoted ''actions''"
    "encode_basestring_ascii ''shoulder_pan'' = quoted ''shoulder_pan''"
    "encode_basestring_ascii ''gripper'' = quoted ''gripper''"
    by (simp_all add: encode_basestring_ascii_def json_escape_char_def quoted_def)
  have r: "float_repr example_platform 1700000000 = ''1700000000''"
    "float_repr example_platform 12 = ''12''" "float_repr example_platform 3 = ''3''"
    by (simp_all add: example_platform_def str_int_run)
  have d: "dict_comprehension (\<lambda>(motor, v). py_replace ''.pos'' [] motor)
      (\<lambda>(motor, v). py_float v) example_action = [(''shoulder_pan'', 12), (''gripper'', 3)]"
    by (simp add: dict_comprehension_def example_action_def py_float_def)
  show ?thesis
    unfolding action_data_def d by (simp add: k r)
qed

lemma example_broadcast_tick:
  "broadcast_tick example_platform 30 [1, 3] example_ws_env =
     ([GetAction,
       Send 1 (json_dumps example_platform (action_data 1700000000 example_action)),
       Send 3 (json_dumps example_platform (action_data 1700000000 example_action)),
       Sleep (7 / 300),
       Print ''Client connected. Total clients: 3'',
       Write (clear_line @ ''s_pan:    12 | gripper:     3 [33ms, 30Hz] clients:3''),
       Flush],
      Inr [1, 3, 2])"
proof -
  have n: "str_int 3 = ''3''" by (simp add: str_int_run)
  show ?thesis
    unfolding broadcast_tick_unfold
    by (simp add: example_ws_env_def ws_line_def example_action_str example_timing n Let_def)
qed


lemma example_test_tick_interrupted:
  "test_tick example_platform 30 (example_test_env\<lparr>te_sleep := Some KeyboardInterrupt\<rparr>) =
     ([GetAction,
       Write (clear_line @ ''s_pan:    12 | gripper:     3 [1ms, 1000Hz]''),
       Flush,
       Sleep (7 / 300)],
      Inl KeyboardInterrupt)"
  unfolding test_tick_unfold
  by (simp add: example_test_env_def example_action_str example_timing)

lemma example_test_leader:
  "test_leader example_platform 30 example_world =
     ([Construct get_leader_config,
       Connect True,
       Print ''Leader device connected on /dev/tty.usbmodem5A4B0479861'',
       Print ''Displaying joint angles at 30 fps (Ctrl+C to stop)'',
       Print (replicate 80 CHR ''-''),
       GetAction,
       Write (clear_line @ ''s_pan:    12 | gripper:     3 [1ms, 1000Hz]''),
       Flush,
       Sleep (7 / 300),
       GetAction,
       Write (clear_line @ ''s_pan:    12 | gripper:     3 [1ms, 1000Hz]''),
       Flush,
       Sleep (7 / 300),
       Print ([CHR 0x0A, CHR 0x0A] @ ''Shutting down...''),
       Disconnect,
       Print ''Leader device disconnected''],
      Returned)"
proof -
  have n: "str_int 30 = ''30''" by (simp add: str_int_run)
  have l: "test_loop example_platform 30 (test_ticks example_world) =
      ([GetAction,
        Write (clear_line @ ''s_pan:    12 | gripper:     3 [1ms, 1000Hz]''),
        Flush,
        Sleep (7 / 300),
        GetAction,
        Write (clear_line @ ''s_pan:    12 | gripper:     3 [1ms, 1000Hz]''),
        Flush,
        Sleep (7 / 300)],
       Some KeyboardInterrupt)"
    by (simp add: example_world_def example_test_tick example_test_tick_interrupted)
  show ?thesis
    unfolding test_leader_def l
    by (simp add: seq_def emit_def call_def example_world_def n PORT_LEADER_def)
qed


end
